theory Spec2Isabelle
  imports Main "HOL-Library.AList"
begin

section \<open>Values, exceptions and HTTP messages\<close>

text \<open>
  JSON values as Python's \<open>json\<close> decoding produces them. A decoded object is a
  \<open>dict\<close>, modelled as an association list in insertion order. Floating-point
  numbers are left out: no function below computes with a number.
\<close>

datatype json =
    JNull
  | JBool bool
  | JInt int
  | JStr string
  | JArr "json list"
  | JObj "(string \<times> json) list"

text \<open>
  The exceptions the services can raise. \<open>RequestError\<close> stands for every exception of
  the HTTP client (connection refused, timeout, ...), \<open>JSONDecodeError\<close> for a response
  body that \<open>response.json()\<close> cannot decode.
\<close>

datatype exn =
    HTTPException int string
  | KeyError string
  | TypeError
  | RequestError
  | JSONDecodeError
  | ExpiredSignatureError
  | InvalidTokenError

datatype http_method = GET | POST

record request =
  req_method :: http_method
  req_url :: string
  req_headers :: "(string \<times> string) list"
  req_json :: "json option"

text \<open>
  A response as the client hands it over: the status code, and the body as
  \<open>response.json()\<close> decodes it (\<open>None\<close> when the body is not JSON).
\<close>

record response =
  status_code :: int
  body :: "json option"

definition response_json :: "response \<Rightarrow> exn + json" where
  "response_json r = (case body r of None \<Rightarrow> Inl JSONDecodeError | Some j \<Rightarrow> Inr j)"

text \<open>\<open>d[k]\<close> on a \<open>dict\<close> and on an arbitrary decoded JSON value.\<close>

definition dict_getitem :: "(string \<times> 'v) list \<Rightarrow> string \<Rightarrow> exn + 'v" where
  "dict_getitem d k = (case map_of d k of None \<Rightarrow> Inl (KeyError k) | Some v \<Rightarrow> Inr v)"

fun json_getitem :: "json \<Rightarrow> string \<Rightarrow> exn + json" where
  "json_getitem (JObj d) k = dict_getitem d k"
| "json_getitem _ k = Inl TypeError"

text \<open>
  A \<open>dict\<close> built from a sequence of items, inserted in order: a later item with the
  key of an earlier one replaces its value and keeps its place.
\<close>

definition dict_of_items :: "(string \<times> 'v) list \<Rightarrow> (string \<times> 'v) list" where
  "dict_of_items kvs = fold (\<lambda>(k, v). AList.update k v) kvs []"

section \<open>The outside world\<close>

text \<open>
  An awaited client call is observed by how long it took (in milliseconds) and by what
  it produced: a response, or an exception of the client. The world records every call
  issued, in order, with its outcome, and the time elapsed. The network answers a
  request depending on the world it is issued in.
\<close>

record outcome =
  out_elapsed :: nat
  out_result :: "exn + response"

record world =
  events :: "(request \<times> outcome) list"
  clock :: nat

type_synonym network = "world \<Rightarrow> request \<Rightarrow> outcome"

type_synonym 'a io = "world \<Rightarrow> (exn + 'a) \<times> world"

definition return_io :: "'a \<Rightarrow> 'a io" where
  "return_io x w = (Inr x, w)"

definition raise_io :: "exn \<Rightarrow> 'a io" where
  "raise_io e w = (Inl e, w)"

definition lift_io :: "exn + 'a \<Rightarrow> 'a io" where
  "lift_io r w = (r, w)"

definition bind_io :: "'a io \<Rightarrow> ('a \<Rightarrow> 'b io) \<Rightarrow> 'b io" where
  "bind_io m f w = (case m w of (Inl e, w') \<Rightarrow> (Inl e, w') | (Inr x, w') \<Rightarrow> f x w')"

text \<open>\<open>try: m except: h\<close> with a bare \<open>except\<close>: every exception of \<open>m\<close> goes to \<open>h\<close>.\<close>

definition try_except :: "'a io \<Rightarrow> (exn \<Rightarrow> 'a io) \<Rightarrow> 'a io" where
  "try_except m h w = (case m w of (Inl e, w') \<Rightarrow> h e w' | (Inr x, w') \<Rightarrow> (Inr x, w'))"

definition await_send :: "network \<Rightarrow> request \<Rightarrow> response io" where
  "await_send net req w =
     (let out = net w req
      in (out_result out,
          w\<lparr>events := events w @ [(req, out)], clock := clock w + out_elapsed out\<rparr>))"

definition client_get :: "network \<Rightarrow> string \<Rightarrow> response io" where
  "client_get net u =
     await_send net \<lparr>req_method = GET, req_url = u, req_headers = [], req_json = None\<rparr>"

definition client_post ::
  "network \<Rightarrow> string \<Rightarrow> json option \<Rightarrow> (string \<times> string) list \<Rightarrow> response io" where
  "client_post net u j hs =
     await_send net \<lparr>req_method = POST, req_url = u, req_headers = hs, req_json = j\<rparr>"

section \<open>api-gateway\<close>

text \<open>
  The process environment is a map from variable names to values; \<open>os.getenv\<close> takes a
  default.
\<close>

definition os_getenv :: "(string \<rightharpoonup> string) \<Rightarrow> string \<Rightarrow> string \<Rightarrow> string" where
  "os_getenv environ k d = (case environ k of None \<Rightarrow> d | Some v \<Rightarrow> v)"

definition SERVICES :: "(string \<rightharpoonup> string) \<Rightarrow> (string \<times> string) list" where
  "SERVICES environ =
     [(''auth'', os_getenv environ ''AUTH_SERVICE_URL'' ''http://auth-service:8001''),
      (''projects'', os_getenv environ ''PROJECT_SERVICE_URL'' ''http://project-service:8002''),
      (''carbon'', os_getenv environ ''CARBON_SERVICE_URL'' ''http://carbon-service:8003''),
      (''monitoring'',
         os_getenv environ ''MONITORING_SERVICE_URL'' ''http://monitoring-service:8004'')]"

subsection \<open>verify_token\<close>

definition verify_token :: "network \<Rightarrow> (string \<rightharpoonup> string) \<Rightarrow> string \<Rightarrow> json io" where
  "verify_token net environ credentials =
     try_except
       (bind_io (lift_io (dict_getitem (SERVICES environ) ''auth'')) (\<lambda>base.
        bind_io (client_post net (base @ ''/verify'') None
                   [(''Authorization'', ''Bearer '' @ credentials)]) (\<lambda>response.
        if status_code response \<noteq> 200
        then raise_io (HTTPException 401 ''Invalid token'')
        else lift_io (response_json response))))
       (\<lambda>_. raise_io (HTTPException 503 ''Auth service unavailable''))"

subsection \<open>health_check\<close>

fun health_loop ::
  "network \<Rightarrow> (string \<times> string) list \<Rightarrow> (string \<times> string) list
     \<Rightarrow> (string \<times> string) list io" where
  "health_loop net [] health_status = return_io health_status"
| "health_loop net ((service_name, u) # rest) health_status =
     bind_io
       (try_except
          (bind_io (client_get net (u @ ''/health'')) (\<lambda>response.
             return_io
               (AList.update service_name
                  (if status_code response = 200 then ''healthy'' else ''unhealthy'')
                  health_status)))
          (\<lambda>_. return_io (AList.update service_name ''unreachable'' health_status)))
       (\<lambda>health_status'. health_loop net rest health_status')"

definition health_check :: "network \<Rightarrow> (string \<rightharpoonup> string) \<Rightarrow> (string \<times> string) list io" where
  "health_check net environ =
     health_loop net (SERVICES environ) [(''gateway'', ''healthy'')]"

subsection \<open>create_project and get_dashboard\<close>

text \<open>
  \<open>str_of\<close> is Python's \<open>str\<close> on a decoded JSON value (also what an f-string
  placeholder renders), taken as a parameter.
\<close>

definition create_project ::
  "network \<Rightarrow> (string \<rightharpoonup> string) \<Rightarrow> (json \<Rightarrow> string) \<Rightarrow> (string \<times> json) list \<Rightarrow> json
     \<Rightarrow> json io" where
  "create_project net environ str_of project_data user_data =
     bind_io (lift_io (dict_getitem (SERVICES environ) ''projects'')) (\<lambda>base.
     bind_io (lift_io (json_getitem user_data ''user_id'')) (\<lambda>created_by.
     bind_io (lift_io (json_getitem user_data ''user_id'')) (\<lambda>x_user_id.
     bind_io (client_post net (base @ ''/projects'')
                (Some (JObj (AList.update ''created_by'' created_by
                               (dict_of_items project_data))))
                [(''X-User-Id'', str_of x_user_id)]) (\<lambda>response.
     lift_io (response_json response)))))"

definition get_dashboard ::
  "network \<Rightarrow> (string \<rightharpoonup> string) \<Rightarrow> (json \<Rightarrow> string) \<Rightarrow> json \<Rightarrow> json io" where
  "get_dashboard net environ str_of user_data =
     bind_io (lift_io (dict_getitem (SERVICES environ) ''projects'')) (\<lambda>pbase.
     bind_io (lift_io (json_getitem user_data ''user_id'')) (\<lambda>puid.
     bind_io (client_get net (pbase @ ''/projects/user/'' @ str_of puid))
       (\<lambda>projects_response.
     bind_io (lift_io (dict_getitem (SERVICES environ) ''carbon'')) (\<lambda>cbase.
     bind_io (lift_io (json_getitem user_data ''user_id'')) (\<lambda>cuid.
     bind_io (client_get net (cbase @ ''/footprint/'' @ str_of cuid)) (\<lambda>carbon_response.
     bind_io (lift_io (response_json projects_response)) (\<lambda>projects.
     bind_io (lift_io (response_json carbon_response)) (\<lambda>carbon_footprint.
     return_io
       (JObj [(''projects'', projects), (''carbon_footprint'', carbon_footprint)])))))))))"

subsection \<open>The protected endpoints\<close>

text \<open>
  Both endpoints depend on \<open>verify_token\<close>, which depends on the \<open>HTTPBearer\<close>
  scheme \<open>security\<close>. The framework resolves the dependencies before it calls the endpoint
  function. \<open>HTTPBearer\<close> is library code: \<open>authorization\<close> is the bearer credential it
  extracts from the inbound request (\<open>None\<close> when the header is missing or is not a
  bearer header), and \<open>not_authenticated\<close> is the exception it raises then.
\<close>

definition security :: "exn \<Rightarrow> string option \<Rightarrow> exn + string" where
  "security not_authenticated authorization =
     (case authorization of None \<Rightarrow> Inl not_authenticated | Some credentials \<Rightarrow> Inr credentials)"

definition api_projects ::
  "network \<Rightarrow> (string \<rightharpoonup> string) \<Rightarrow> (json \<Rightarrow> string) \<Rightarrow> exn \<Rightarrow> string option
     \<Rightarrow> (string \<times> json) list \<Rightarrow> json io" where
  "api_projects net environ str_of not_authenticated authorization project_data =
     bind_io (lift_io (security not_authenticated authorization)) (\<lambda>credentials.
     bind_io (verify_token net environ credentials) (\<lambda>user_data.
     create_project net environ str_of project_data user_data))"

definition api_dashboard ::
  "network \<Rightarrow> (string \<rightharpoonup> string) \<Rightarrow> (json \<Rightarrow> string) \<Rightarrow> exn \<Rightarrow> string option \<Rightarrow> json io" where
  "api_dashboard net environ str_of not_authenticated authorization =
     bind_io (lift_io (security not_authenticated authorization)) (\<lambda>credentials.
     bind_io (verify_token net environ credentials) (\<lambda>user_data.
     get_dashboard net environ str_of user_data))"

section \<open>auth-service\<close>

text \<open>
  The handler of \<open>POST /verify\<close>. \<open>jwt.decode\<close> with the service's key is library code,
  taken as the parameter \<open>jwt_decode\<close>. \<open>ExpiredSignatureError\<close> is caught by the first
  \<open>except\<close> clause, \<open>InvalidTokenError\<close> by the second; a \<open>KeyError\<close> of the payload is
  caught by neither.
\<close>

definition auth_verify_token :: "(string \<Rightarrow> exn + json) \<Rightarrow> string \<Rightarrow> exn + json" where
  "auth_verify_token jwt_decode token =
     (case jwt_decode token of
        Inl e \<Rightarrow>
          (if e = ExpiredSignatureError then Inl (HTTPException 401 ''Token expired'')
           else if e = InvalidTokenError then Inl (HTTPException 401 ''Invalid token'')
           else Inl e)
      | Inr payload \<Rightarrow>
          (case json_getitem payload ''user_id'' of
             Inl e \<Rightarrow> Inl e
           | Inr user_id \<Rightarrow>
               (case json_getitem payload ''sub'' of
                  Inl e \<Rightarrow> Inl e
                | Inr sub \<Rightarrow> Inr (JObj [(''user_id'', user_id), (''email'', sub)]))))"

text \<open>
  What the framework makes of a handler's result: the returned value as a 200 response,
  an \<open>HTTPException\<close> as a response of its status with the detail, any other exception as
  a 500 response whose body is plain text.
\<close>

definition http_response :: "exn + json \<Rightarrow> response" where
  "http_response r =
     (case r of
        Inr j \<Rightarrow> \<lparr>status_code = 200, body = Some j\<rparr>
      | Inl (HTTPException s d) \<Rightarrow> \<lparr>status_code = s, body = Some (JObj [(''detail'', JStr d)])\<rparr>
      | Inl _ \<Rightarrow> \<lparr>status_code = 500, body = None\<rparr>)"

text \<open>
  The handler's signature is \<open>verify_token(token: str)\<close>: a parameter of a simple type
  that is not part of the path is a required query parameter, so the framework reads
  \<open>token\<close> from the query string of the URL and answers 422 when it is not there. The
  headers of the request are not read.
\<close>

fun split_on :: "char \<Rightarrow> string \<Rightarrow> string list" where
  "split_on c [] = [[]]"
| "split_on c (x # xs) =
     (if x = c then [] # split_on c xs
      else (case split_on c xs of [] \<Rightarrow> [[x]] | p # ps \<Rightarrow> (x # p) # ps))"

definition query_params :: "string \<Rightarrow> (string \<times> string) list" where
  "query_params u =
     map (\<lambda>kv. (takeWhile (\<lambda>c. c \<noteq> CHR ''='') kv, drop 1 (dropWhile (\<lambda>c. c \<noteq> CHR ''='') kv)))
       (split_on (CHR ''&'') (drop 1 (dropWhile (\<lambda>c. c \<noteq> CHR ''?'') u)))"

definition auth_verify_endpoint :: "(string \<Rightarrow> exn + json) \<Rightarrow> request \<Rightarrow> response" where
  "auth_verify_endpoint jwt_decode req =
     (case map_of (query_params (req_url req)) ''token'' of
        None \<Rightarrow>
          \<lparr>status_code = 422,
           body = Some (JObj [(''detail'',
                    JArr [JObj [(''loc'', JArr [JStr ''query'', JStr ''token''])]])])\<rparr>
      | Some token \<Rightarrow> http_response (auth_verify_token jwt_decode token))"

text \<open>The auth service as the network the gateway talks to; every call takes \<open>t\<close>.\<close>

definition auth_service :: "(string \<Rightarrow> exn + json) \<Rightarrow> nat \<Rightarrow> network" where
  "auth_service jwt_decode t w req =
     \<lparr>out_elapsed = t, out_result = Inr (auth_verify_endpoint jwt_decode req)\<rparr>"

section \<open>Vocabulary of the properties\<close>

text \<open>The world after a call has been issued and awaited.\<close>

definition observe :: "network \<Rightarrow> request \<Rightarrow> world \<Rightarrow> world" where
  "observe net req w =
     w\<lparr>events := events w @ [(req, net w req)], clock := clock w + out_elapsed (net w req)\<rparr>"

text \<open>
  The classification rule of the health report as the specification words it: HTTP 200
  is healthy, any other status code unhealthy, a connection error or timeout unreachable.
\<close>

definition classify :: "outcome \<Rightarrow> string" where
  "classify out =
     (case out_result out of
        Inl _ \<Rightarrow> ''unreachable''
      | Inr r \<Rightarrow> if status_code r = 200 then ''healthy'' else ''unhealthy'')"

definition probe_request :: "string \<Rightarrow> request" where
  "probe_request u =
     \<lparr>req_method = GET, req_url = u @ ''/health'', req_headers = [], req_json = None\<rparr>"

definition verify_request :: "(string \<rightharpoonup> string) \<Rightarrow> string \<Rightarrow> request" where
  "verify_request environ credentials =
     \<lparr>req_method = POST,
      req_url = os_getenv environ ''AUTH_SERVICE_URL'' ''http://auth-service:8001'' @ ''/verify'',
      req_headers = [(''Authorization'', ''Bearer '' @ credentials)],
      req_json = None\<rparr>"

definition projects_by_user_request :: "(string \<rightharpoonup> string) \<Rightarrow> string \<Rightarrow> request" where
  "projects_by_user_request environ uid =
     \<lparr>req_method = GET,
      req_url = os_getenv environ ''PROJECT_SERVICE_URL'' ''http://project-service:8002''
                  @ ''/projects/user/'' @ uid,
      req_headers = [], req_json = None\<rparr>"

definition footprint_request :: "(string \<rightharpoonup> string) \<Rightarrow> string \<Rightarrow> request" where
  "footprint_request environ uid =
     \<lparr>req_method = GET,
      req_url = os_getenv environ ''CARBON_SERVICE_URL'' ''http://carbon-service:8003''
                  @ ''/footprint/'' @ uid,
      req_headers = [], req_json = None\<rparr>"

definition create_request ::
  "(string \<rightharpoonup> string) \<Rightarrow> (json \<Rightarrow> string) \<Rightarrow> (string \<times> json) list \<Rightarrow> json \<Rightarrow> request" where
  "create_request environ str_of project_data u =
     \<lparr>req_method = POST,
      req_url = os_getenv environ ''PROJECT_SERVICE_URL'' ''http://project-service:8002''
                  @ ''/projects'',
      req_headers = [(''X-User-Id'', str_of u)],
      req_json = Some (JObj (AList.update ''created_by'' u (dict_of_items project_data)))\<rparr>"

section \<open>Networks and values of the examples\<close>

text \<open>A network that answers every call the same way, and one that answers by URL.\<close>

definition always :: "outcome \<Rightarrow> network" where
  "always out w req = out"

definition by_url :: "(string \<times> outcome) list \<Rightarrow> outcome \<Rightarrow> network" where
  "by_url table dflt w req = (case map_of table (req_url req) of None \<Rightarrow> dflt | Some out \<Rightarrow> out)"

definition responds :: "nat \<Rightarrow> int \<Rightarrow> json \<Rightarrow> outcome" where
  "responds t s j = \<lparr>out_elapsed = t, out_result = Inr \<lparr>status_code = s, body = Some j\<rparr>\<rparr>"

definition fails_after :: "nat \<Rightarrow> outcome" where
  "fails_after t = \<lparr>out_elapsed = t, out_result = Inl RequestError\<rparr>"

text \<open>The process environment with no variable set: every address is the default.\<close>

definition default_environ :: "string \<rightharpoonup> string" where
  "default_environ = Map.empty"

definition w0 :: world where
  "w0 = \<lparr>events = [], clock = 0\<rparr>"

text \<open>
  The two data backends of the dashboard at their default addresses, for the user 42:
  both answering 200, and the carbon backend answering 404.
\<close>

definition dashboard_net :: network where
  "dashboard_net =
     by_url [(''http://project-service:8002/projects/user/42'',
                responds 10 200 (JArr [JObj [(''id'', JInt 1)]])),
             (''http://carbon-service:8003/footprint/42'',
                responds 10 200 (JObj [(''net_footprint'', JInt 5)]))]
       (fails_after 0)"

definition dashboard_net_404 :: network where
  "dashboard_net_404 =
     by_url [(''http://project-service:8002/projects/user/42'',
                responds 10 200 (JArr [JObj [(''id'', JInt 1)]])),
             (''http://carbon-service:8003/footprint/42'',
                responds 10 404 (JObj [(''detail'', JStr ''Not Found'')]))]
       (fails_after 0)"

text \<open>
  Python's \<open>str\<close> on the JSON scalars the examples use. Lists and objects, whose
  rendering is that of \<open>repr\<close>, do not occur in the examples and get the empty string.
\<close>

fun digits :: "nat \<Rightarrow> string" where
  "digits n =
     (if n < 10 then [''0123456789'' ! n]
      else digits (n div 10) @ [''0123456789'' ! (n mod 10)])"

declare digits.simps [simp del]

fun str_scalar :: "json \<Rightarrow> string" where
  "str_scalar (JInt i) = (if i < 0 then ''-'' @ digits (nat (- i)) else digits (nat i))"
| "str_scalar (JStr s) = s"
| "str_scalar (JBool b) = (if b then ''True'' else ''False'')"
| "str_scalar JNull = ''None''"
| "str_scalar _ = []"

section \<open>How the operations run\<close>

lemmas io_defs = return_io_def raise_io_def lift_io_def bind_io_def try_except_def
  await_send_def client_get_def client_post_def

lemma os_getenv_default [simp]: "os_getenv default_environ k d = d"
  by (simp add: os_getenv_def default_environ_def)

lemma SERVICES_auth:
  "dict_getitem (SERVICES environ) ''auth''
     = Inr (os_getenv environ ''AUTH_SERVICE_URL'' ''http://auth-service:8001'')"
  by (simp add: SERVICES_def dict_getitem_def)

lemma SERVICES_projects:
  "dict_getitem (SERVICES environ) ''projects''
     = Inr (os_getenv environ ''PROJECT_SERVICE_URL'' ''http://project-service:8002'')"
  by (simp add: SERVICES_def dict_getitem_def)

lemma SERVICES_carbon:
  "dict_getitem (SERVICES environ) ''carbon''
     = Inr (os_getenv environ ''CARBON_SERVICE_URL'' ''http://carbon-service:8003'')"
  by (simp add: SERVICES_def dict_getitem_def)

text \<open>
  \<open>verify_token\<close> issues the one call to the auth backend and returns the decoded body
  of a 200 response; everything else ends in the 503 exception, because the 401 raised
  inside the \<open>try\<close> is caught by the bare \<open>except\<close> like any other exception.
\<close>

lemma verify_token_run:
  "verify_token net environ credentials w =
     ((case out_result (net w (verify_request environ credentials)) of
         Inl e \<Rightarrow> Inl (HTTPException 503 ''Auth service unavailable'')
       | Inr r \<Rightarrow>
           if status_code r = 200
           then (case body r of
                   None \<Rightarrow> Inl (HTTPException 503 ''Auth service unavailable'')
                 | Some j \<Rightarrow> Inr j)
           else Inl (HTTPException 503 ''Auth service unavailable'')),
      observe net (verify_request environ credentials) w)"
  by (simp add: verify_token_def SERVICES_auth io_defs verify_request_def observe_def
        response_json_def Let_def split: sum.splits option.splits)

lemma verify_token_never_401:
  "fst (verify_token net environ credentials w) \<noteq> Inl (HTTPException 401 detail)"
  by (simp add: verify_token_run split: sum.splits option.splits)

lemma create_project_run:
  assumes "json_getitem user_data ''user_id'' = Inr u"
  shows "create_project net environ str_of project_data user_data w =
     ((case out_result (net w (create_request environ str_of project_data u)) of
         Inl e \<Rightarrow> Inl e
       | Inr r \<Rightarrow> (case body r of None \<Rightarrow> Inl JSONDecodeError | Some j \<Rightarrow> Inr j)),
      observe net (create_request environ str_of project_data u) w)"
  using assms
  by (simp add: create_project_def SERVICES_projects io_defs create_request_def observe_def
        response_json_def Let_def split: sum.splits option.splits)

lemma create_project_no_id:
  assumes "json_getitem user_data ''user_id'' = Inl e"
  shows "create_project net environ str_of project_data user_data w = (Inl e, w)"
  using assms by (simp add: create_project_def SERVICES_projects io_defs)

lemma get_dashboard_no_id:
  assumes "json_getitem user_data ''user_id'' = Inl e"
  shows "get_dashboard net environ str_of user_data w = (Inl e, w)"
  using assms by (simp add: get_dashboard_def SERVICES_projects io_defs)

lemma get_dashboard_run:
  assumes "json_getitem user_data ''user_id'' = Inr u"
  shows "get_dashboard net environ str_of user_data w =
     (let preq = projects_by_user_request environ (str_of u);
          creq = footprint_request environ (str_of u);
          w1 = observe net preq w
      in case out_result (net w preq) of
           Inl e \<Rightarrow> (Inl e, w1)
         | Inr pr \<Rightarrow>
             (case out_result (net w1 creq) of
                Inl e \<Rightarrow> (Inl e, observe net creq w1)
              | Inr cr \<Rightarrow>
                  ((case body pr of
                      None \<Rightarrow> Inl JSONDecodeError
                    | Some pj \<Rightarrow>
                        (case body cr of
                           None \<Rightarrow> Inl JSONDecodeError
                         | Some cj \<Rightarrow>
                             Inr (JObj [(''projects'', pj), (''carbon_footprint'', cj)]))),
                   observe net creq w1)))"
  using assms
  by (simp add: get_dashboard_def SERVICES_projects SERVICES_carbon io_defs
        projects_by_user_request_def footprint_request_def observe_def
        response_json_def Let_def split: sum.splits option.splits)

text \<open>One turn of the health loop: the probe is awaited, then its entry is written.\<close>

lemma health_step:
  "health_loop net ((n, u) # rest) hs w =
     health_loop net rest (AList.update n (classify (net w (probe_request u))) hs)
       (observe net (probe_request u) w)"
  by (simp add: io_defs classify_def probe_request_def observe_def Let_def split: sum.splits)

lemma health_nil: "health_loop net [] hs w = (Inr hs, w)"
  by (simp add: return_io_def)

text \<open>
  The loop over any registry never raises, issues one probe per entry in the registry's
  order, and takes the sum of the probes' times.
\<close>

lemma health_loop_run:
  "\<exists>evs hs'. health_loop net svcs hs w =
       (Inr hs', w\<lparr>events := events w @ evs,
                   clock := clock w + sum_list (map (out_elapsed \<circ> snd) evs)\<rparr>)
     \<and> map fst evs = map (probe_request \<circ> snd) svcs
     \<and> hs' = fold (\<lambda>(n, out). AList.update n (classify out))
                (zip (map fst svcs) (map snd evs)) hs"
proof (induction svcs arbitrary: hs w)
  case Nil
  show ?case by (simp add: return_io_def)
next
  case (Cons s svcs)
  obtain n u where s: "s = (n, u)" by (cases s)
  let ?w1 = "observe net (probe_request u) w"
  let ?h1 = "AList.update n (classify (net w (probe_request u))) hs"
  from Cons.IH [of ?h1 ?w1] obtain evs hs' where
    run: "health_loop net svcs ?h1 ?w1 =
       (Inr hs', ?w1\<lparr>events := events ?w1 @ evs,
                   clock := clock ?w1 + sum_list (map (out_elapsed \<circ> snd) evs)\<rparr>)"
    and reqs: "map fst evs = map (probe_request \<circ> snd) svcs"
    and hs': "hs' = fold (\<lambda>(n, out). AList.update n (classify out))
                (zip (map fst svcs) (map snd evs)) ?h1"
    by blast
  let ?evs = "(probe_request u, net w (probe_request u)) # evs"
  have "health_loop net (s # svcs) hs w =
       (Inr hs', w\<lparr>events := events w @ ?evs,
                   clock := clock w + sum_list (map (out_elapsed \<circ> snd) ?evs)\<rparr>)"
    by (simp add: s health_step run del: health_loop.simps) (simp add: observe_def)
  moreover have "map fst ?evs = map (probe_request \<circ> snd) (s # svcs)"
    by (simp add: s reqs)
  moreover have "hs' = fold (\<lambda>(n, out). AList.update n (classify out))
                (zip (map fst (s # svcs)) (map snd ?evs)) hs"
    by (simp add: s hs')
  ultimately show ?case by blast
qed

lemma health_check_run:
  "health_check net environ w =
    (let a = probe_request (os_getenv environ ''AUTH_SERVICE_URL'' ''http://auth-service:8001'');
         p = probe_request
               (os_getenv environ ''PROJECT_SERVICE_URL'' ''http://project-service:8002'');
         c = probe_request (os_getenv environ ''CARBON_SERVICE_URL'' ''http://carbon-service:8003'');
         m = probe_request
               (os_getenv environ ''MONITORING_SERVICE_URL'' ''http://monitoring-service:8004'');
         w1 = observe net a w; w2 = observe net p w1; w3 = observe net c w2;
         w4 = observe net m w3
     in (Inr [(''gateway'', ''healthy''), (''auth'', classify (net w a)),
              (''projects'', classify (net w1 p)), (''carbon'', classify (net w2 c)),
              (''monitoring'', classify (net w3 m))], w4))"
  by (simp add: health_check_def SERVICES_def health_step health_nil Let_def
        del: health_loop.simps)

text \<open>
  The endpoints run their operation only after the verification has returned: without
  a credential nothing is called, and after a failed verification the call to the auth
  backend is the only one issued.
\<close>

lemma api_projects_no_credential:
  "api_projects net environ str_of not_authenticated None project_data w
     = (Inl not_authenticated, w)"
  by (simp add: api_projects_def security_def bind_io_def lift_io_def)

lemma api_dashboard_no_credential:
  "api_dashboard net environ str_of not_authenticated None w = (Inl not_authenticated, w)"
  by (simp add: api_dashboard_def security_def bind_io_def lift_io_def)

lemma api_projects_unverified:
  assumes "fst (verify_token net environ credentials w) = Inl e"
  shows "api_projects net environ str_of not_authenticated (Some credentials) project_data w
     = (Inl e, observe net (verify_request environ credentials) w)"
  using assms
  by (simp add: api_projects_def security_def bind_io_def lift_io_def verify_token_run
        split: sum.splits)

lemma api_dashboard_unverified:
  assumes "fst (verify_token net environ credentials w) = Inl e"
  shows "api_dashboard net environ str_of not_authenticated (Some credentials) w
     = (Inl e, observe net (verify_request environ credentials) w)"
  using assms
  by (simp add: api_dashboard_def security_def bind_io_def lift_io_def verify_token_run
        split: sum.splits)

lemma query_params_verify:
  "map_of (query_params (req_url (verify_request default_environ token))) ''token'' = None"
  by (simp add: verify_request_def query_params_def)

text \<open>
  A \<open>dict\<close> built from items has every key once, and after \<open>d[k] = v\<close> the key
  \<open>k\<close> occurs exactly once, with the value \<open>v\<close>.
\<close>

lemma fold_update_distinct:
  "distinct (map fst d) \<Longrightarrow> distinct (map fst (fold (\<lambda>(k, v). AList.update k v) kvs d))"
  by (induction kvs arbitrary: d) (auto simp: AList.distinct_update)

lemma dict_of_items_distinct: "distinct (map fst (dict_of_items kvs))"
  by (simp add: dict_of_items_def fold_update_distinct)

lemma filter_key_absent:
  "k \<notin> fst ` set d \<Longrightarrow> filter (\<lambda>kv. fst kv = k) d = []"
  by (induction d) auto

lemma filter_key_update:
  "distinct (map fst d) \<Longrightarrow> filter (\<lambda>kv. fst kv = k) (AList.update k v d) = [(k, v)]"
  by (induction d) (auto simp: filter_key_absent)

lemma digits_42: "digits 42 = ''42''"
  by (simp add: digits.simps)

section \<open>The claims\<close>

subsection \<open>Token verification\<close>

text \<open>
  Claim C1. A request to \<open>/api/projects\<close> or \<open>/api/dashboard\<close> without a valid bearer
  credential is answered with the Unauthenticated error and no data backend is called.
  The code does not call a data backend, but it does not answer Unauthenticated: for
  the request \<open>POST /api/projects\<close> with the credential \<open>bad\<close>, which the auth backend
  rejects with 401, the gateway raises the 503 exception \<open>Auth service unavailable\<close>.
  The only call issued is the one to the auth backend.
\<close>

theorem api_projects_invalid_token:
  "api_projects (always (responds 10 401 (JObj [(''detail'', JStr ''Invalid token'')])))
     default_environ str_of (HTTPException 403 ''Not authenticated'') (Some ''bad'')
     project_data w0
   = (Inl (HTTPException 503 ''Auth service unavailable''),
      \<lparr>events = [(verify_request default_environ ''bad'',
                   responds 10 401 (JObj [(''detail'', JStr ''Invalid token'')]))],
       clock = 10\<rparr>)"
  by (simp add: api_projects_def security_def verify_token_run bind_io_def lift_io_def
        always_def responds_def observe_def w0_def)

text \<open>
  Claim C2. A non-200 answer of the auth backend gives the Unauthenticated error (401),
  and only a network failure gives AuthServiceUnavailable (503); the two are never
  conflated. In the code they are: a 401 answer of the auth backend and a failed
  connection both end in the same 503 exception.
\<close>

theorem verify_token_conflates_failures:
  "fst (verify_token (always (responds 10 401 (JObj [(''detail'', JStr ''Invalid token'')])))
          default_environ ''bad'' w0)
     = Inl (HTTPException 503 ''Auth service unavailable'')
   \<and> fst (verify_token (always (fails_after 5000)) default_environ ''bad'' w0)
     = Inl (HTTPException 503 ''Auth service unavailable'')"
  by (simp add: verify_token_run always_def responds_def fails_after_def)

text \<open>
  Claim C8. The gateway's verification call conforms to the auth backend's \<open>/verify\<close>
  interface: the auth backend reads the token from that call and answers 200 for a
  valid token. The code of the two services does not fit: the gateway sends the token
  in the \<open>Authorization\<close> header, the auth service reads it from the query parameter
  \<open>token\<close>. With the default address, whatever the token and whatever \<open>jwt.decode\<close>
  makes of it, the auth service answers the gateway's call with 422 and the gateway
  raises the 503 exception.
\<close>

theorem auth_service_rejects_gateway_call:
  "status_code (auth_verify_endpoint jwt_decode (verify_request default_environ token)) = 422
   \<and> fst (verify_token (auth_service jwt_decode t) default_environ token w)
       = Inl (HTTPException 503 ''Auth service unavailable'')"
  by (simp add: verify_token_run auth_service_def auth_verify_endpoint_def query_params_verify)

subsection \<open>Health report\<close>

text \<open>
  Claim C3. Every health check returns a report with exactly one entry per registered
  service (auth, projects, carbon, monitoring) plus the gateway entry, however many
  probes fail. The gateway entry is \<open>healthy\<close>; a service is \<open>healthy\<close> on HTTP 200,
  \<open>unhealthy\<close> on any other status code and \<open>unreachable\<close> when the probe raises. A failed
  probe does not abort the others: the check never raises, and the entry of a service
  is the classification of the outcome of its own probe.
\<close>

theorem health_check_report:
  "let a = probe_request (os_getenv environ ''AUTH_SERVICE_URL'' ''http://auth-service:8001'');
       p = probe_request
             (os_getenv environ ''PROJECT_SERVICE_URL'' ''http://project-service:8002'');
       c = probe_request (os_getenv environ ''CARBON_SERVICE_URL'' ''http://carbon-service:8003'');
       m = probe_request
             (os_getenv environ ''MONITORING_SERVICE_URL'' ''http://monitoring-service:8004'');
       w1 = observe net a w; w2 = observe net p w1; w3 = observe net c w2;
       report = [(''gateway'', ''healthy''), (''auth'', classify (net w a)),
                 (''projects'', classify (net w1 p)), (''carbon'', classify (net w2 c)),
                 (''monitoring'', classify (net w3 m))]
   in fst (health_check net environ w) = Inr report
      \<and> map fst report = ''gateway'' # map fst (SERVICES environ)
      \<and> distinct (map fst report)"
  by (simp add: health_check_run Let_def SERVICES_def)

text \<open>
  Claim C7, as amended. The claim says that the probes are issued concurrently, so that
  the report takes about one timeout period. The code awaits each probe inside the
  loop: the probes are issued one after the other in the order of the registry, each in
  the world left by the one before, and the report takes the sum of the times of the
  four probes.
\<close>

theorem health_check_latency_is_sum:
  "let a = probe_request (os_getenv environ ''AUTH_SERVICE_URL'' ''http://auth-service:8001'');
       p = probe_request
             (os_getenv environ ''PROJECT_SERVICE_URL'' ''http://project-service:8002'');
       c = probe_request (os_getenv environ ''CARBON_SERVICE_URL'' ''http://carbon-service:8003'');
       m = probe_request
             (os_getenv environ ''MONITORING_SERVICE_URL'' ''http://monitoring-service:8004'');
       w1 = observe net a w; w2 = observe net p w1; w3 = observe net c w2;
       w' = snd (health_check net environ w)
   in events w' = events w @ [(a, net w a), (p, net w1 p), (c, net w2 c), (m, net w3 m)]
      \<and> clock w' = clock w + out_elapsed (net w a) + out_elapsed (net w1 p)
                     + out_elapsed (net w2 c) + out_elapsed (net w3 m)"
  by (simp add: health_check_run Let_def observe_def)

text \<open>
  The claim as stated fails when every backend lets its probe run into the timeout of
  5000 milliseconds: the report takes 20000 milliseconds, four timeout periods.
\<close>

theorem health_check_four_timeouts:
  "clock (snd (health_check (always (fails_after 5000)) default_environ w0)) = 20000
   \<and> map snd (events (snd (health_check (always (fails_after 5000)) default_environ w0)))
       = [fails_after 5000, fails_after 5000, fails_after 5000, fails_after 5000]
   \<and> \<not> clock (snd (health_check (always (fails_after 5000)) default_environ w0)) \<le> 2 * 5000"
  by (simp add: health_check_run Let_def observe_def always_def fails_after_def w0_def)

subsection \<open>Identity handed to the operations\<close>

text \<open>
  Claim C9, as amended. The claim says that after a 200 answer the identity handed on
  has a \<open>user_id\<close>, or else the verification fails. The code does not look into the
  body: for a 200 answer whose body decodes to \<open>j\<close>, \<open>verify_token\<close> returns \<open>j\<close>
  as it is, and both operations run on \<open>j\<close>. When \<open>j\<close> has no \<open>user_id\<close>, they raise
  the exception of the lookup before any backend call is issued.
\<close>

theorem verify_token_returns_body_unchecked:
  assumes "out_result (net w (verify_request environ credentials)) = Inr r"
    and "status_code r = 200"
    and "body r = Some j"
  shows "let w1 = observe net (verify_request environ credentials) w
         in verify_token net environ credentials w = (Inr j, w1)
          \<and> api_projects net environ str_of not_authenticated (Some credentials) project_data w
              = create_project net environ str_of project_data j w1
          \<and> api_dashboard net environ str_of not_authenticated (Some credentials) w
              = get_dashboard net environ str_of j w1
          \<and> (case json_getitem j ''user_id'' of
                Inl e \<Rightarrow>
                  create_project net environ str_of project_data j w1 = (Inl e, w1)
                  \<and> get_dashboard net environ str_of j w1 = (Inl e, w1)
              | Inr u \<Rightarrow> True)"
  using assms
  by (simp add: Let_def api_projects_def api_dashboard_def security_def verify_token_run
        bind_io_def lift_io_def create_project_no_id get_dashboard_no_id split: sum.splits)

text \<open>
  An instance: the auth backend answers 200 with a body that has only an \<open>email\<close>.
\<close>

theorem verify_token_returns_body_unchecked_witness:
  "out_result (always (responds 10 200 (JObj [(''email'', JStr ''a@b.c'')])) w0
      (verify_request default_environ ''tok''))
     = Inr \<lparr>status_code = 200, body = Some (JObj [(''email'', JStr ''a@b.c'')])\<rparr>
   \<and> verify_token (always (responds 10 200 (JObj [(''email'', JStr ''a@b.c'')])))
        default_environ ''tok'' w0
       = (Inr (JObj [(''email'', JStr ''a@b.c'')]),
          observe (always (responds 10 200 (JObj [(''email'', JStr ''a@b.c'')])))
            (verify_request default_environ ''tok'') w0)
   \<and> fst (api_projects (always (responds 10 200 (JObj [(''email'', JStr ''a@b.c'')])))
             default_environ str_scalar (HTTPException 403 ''Not authenticated'') (Some ''tok'')
             [(''name'', JStr ''Park'')] w0)
       = Inl (KeyError ''user_id'')"
proof -
  have h: "out_result (always (responds 10 200 (JObj [(''email'', JStr ''a@b.c'')])) w0
      (verify_request default_environ ''tok''))
     = Inr \<lparr>status_code = 200, body = Some (JObj [(''email'', JStr ''a@b.c'')])\<rparr>"
    by (simp add: always_def responds_def)
  show ?thesis
    using h verify_token_returns_body_unchecked
        [where net = "always (responds 10 200 (JObj [(''email'', JStr ''a@b.c'')]))"
           and w = w0 and environ = default_environ and credentials = "''tok''"
           and r = "\<lparr>status_code = 200, body = Some (JObj [(''email'', JStr ''a@b.c'')])\<rparr>"
           and j = "JObj [(''email'', JStr ''a@b.c'')]" and str_of = str_scalar
           and not_authenticated = "HTTPException 403 ''Not authenticated''"
           and project_data = "[(''name'', JStr ''Park'')]"]
    by (simp add: Let_def dict_getitem_def)
qed

text \<open>
  The claim as stated fails there: the verification succeeds with an identity without
  \<open>user_id\<close>, and create-project receives it and raises \<open>KeyError\<close>.
\<close>

theorem identity_without_user_id_reaches_create_project:
  "fst (verify_token (always (responds 10 200 (JObj [(''email'', JStr ''a@b.c'')])))
          default_environ ''tok'' w0)
     = Inr (JObj [(''email'', JStr ''a@b.c'')])
   \<and> json_getitem (JObj [(''email'', JStr ''a@b.c'')]) ''user_id'' = Inl (KeyError ''user_id'')
   \<and> fst (api_projects (always (responds 10 200 (JObj [(''email'', JStr ''a@b.c'')])))
             default_environ str_scalar (HTTPException 403 ''Not authenticated'') (Some ''tok'')
             [(''name'', JStr ''Park'')] w0)
       = Inl (KeyError ''user_id'')"
proof -
  have h: "json_getitem (JObj [(''email'', JStr ''a@b.c'')]) ''user_id''
             = Inl (KeyError ''user_id'')"
    by (simp add: dict_getitem_def)
  show ?thesis
    by (simp add: api_projects_def security_def verify_token_run bind_io_def lift_io_def
          always_def responds_def create_project_no_id [OF h] dict_getitem_def)
qed

subsection \<open>Create-project\<close>

text \<open>
  Claim C5. For a create-project request with a verified identity whose \<open>user_id\<close> is
  \<open>u\<close>, exactly one call is forwarded to the projects backend, a \<open>POST\<close> to
  \<open>/projects\<close>; its JSON body has the key \<open>created_by\<close> exactly once, with the value
  \<open>u\<close> (also when the caller's payload has a \<open>created_by\<close> of its own), and its headers
  have \<open>X-User-Id\<close> exactly once, with \<open>str(u)\<close>.
\<close>

theorem create_project_forwards_identity:
  assumes "json_getitem user_data ''user_id'' = Inr u"
  shows "\<exists>req d.
      events (snd (create_project net environ str_of project_data user_data w))
        = events w @ [(req, net w req)]
    \<and> req_method req = POST
    \<and> req_url req
        = os_getenv environ ''PROJECT_SERVICE_URL'' ''http://project-service:8002'' @ ''/projects''
    \<and> req_json req = Some (JObj d)
    \<and> filter (\<lambda>kv. fst kv = ''created_by'') d = [(''created_by'', u)]
    \<and> filter (\<lambda>h. fst h = ''X-User-Id'') (req_headers req) = [(''X-User-Id'', str_of u)]"
proof -
  let ?req = "create_request environ str_of project_data u"
  let ?d = "AList.update ''created_by'' u (dict_of_items project_data)"
  have "events (snd (create_project net environ str_of project_data user_data w))
          = events w @ [(?req, net w ?req)]"
    by (simp add: create_project_run [OF assms] observe_def)
  moreover have "req_json ?req = Some (JObj ?d)" "req_method ?req = POST"
    "req_url ?req
       = os_getenv environ ''PROJECT_SERVICE_URL'' ''http://project-service:8002'' @ ''/projects''"
    "filter (\<lambda>h. fst h = ''X-User-Id'') (req_headers ?req) = [(''X-User-Id'', str_of u)]"
    by (simp_all add: create_request_def)
  moreover have "filter (\<lambda>kv. fst kv = ''created_by'') ?d = [(''created_by'', u)]"
    by (rule filter_key_update) (rule dict_of_items_distinct)
  ultimately show ?thesis by blast
qed

text \<open>
  An instance: the identity of the user 42 and a payload that brings its own \<open>created_by\<close>.
\<close>

theorem create_project_forwards_identity_witness:
  "json_getitem (JObj [(''user_id'', JInt 42), (''email'', JStr ''a@b.c'')]) ''user_id''
     = Inr (JInt 42)
   \<and> (\<exists>req d.
      events (snd (create_project (always (responds 10 200 (JObj [(''id'', JInt 1)])))
                     default_environ str_scalar
                     [(''name'', JStr ''Park''), (''created_by'', JInt 7)]
                     (JObj [(''user_id'', JInt 42), (''email'', JStr ''a@b.c'')]) w0))
        = events w0 @ [(req, responds 10 200 (JObj [(''id'', JInt 1)]))]
    \<and> req_method req = POST
    \<and> req_url req = ''http://project-service:8002/projects''
    \<and> req_json req = Some (JObj d)
    \<and> filter (\<lambda>kv. fst kv = ''created_by'') d = [(''created_by'', JInt 42)]
    \<and> filter (\<lambda>h. fst h = ''X-User-Id'') (req_headers req) = [(''X-User-Id'', ''42'')])"
proof -
  have h: "json_getitem (JObj [(''user_id'', JInt 42), (''email'', JStr ''a@b.c'')]) ''user_id''
     = Inr (JInt 42)"
    by (simp add: dict_getitem_def)
  show ?thesis
    using h create_project_forwards_identity [OF h,
        of "always (responds 10 200 (JObj [(''id'', JInt 1)]))" default_environ str_scalar
           "[(''name'', JStr ''Park''), (''created_by'', JInt 7)]" w0]
    by (simp add: always_def digits_42)
qed

text \<open>
  Claim C6, as amended. The claim says that a non-2xx answer of a data backend is
  propagated as a BackendError and never returned as a success of the gateway. The code
  does not read the status of a data backend's answer: create-project returns the
  decoded body of whatever answer it gets, get-dashboard puts the decoded bodies of
  whatever answers it gets into its composite, and each fails only when a call raises
  or a body does not decode. No default value is put in the place of a failure.
\<close>

theorem data_backend_answer_is_returned:
  assumes "json_getitem user_data ''user_id'' = Inr u"
  shows "fst (create_project net environ str_of project_data user_data w)
           = (case out_result (net w (create_request environ str_of project_data u)) of
                Inl e \<Rightarrow> Inl e
              | Inr r \<Rightarrow> (case body r of None \<Rightarrow> Inl JSONDecodeError | Some j \<Rightarrow> Inr j))
       \<and> (let preq = projects_by_user_request environ (str_of u);
               creq = footprint_request environ (str_of u);
               w1 = observe net preq w
           in fst (get_dashboard net environ str_of user_data w)
                = (case out_result (net w preq) of
                     Inl e \<Rightarrow> Inl e
                   | Inr pr \<Rightarrow>
                       (case out_result (net w1 creq) of
                          Inl e \<Rightarrow> Inl e
                        | Inr cr \<Rightarrow>
                            (case body pr of
                               None \<Rightarrow> Inl JSONDecodeError
                             | Some pj \<Rightarrow>
                                 (case body cr of
                                    None \<Rightarrow> Inl JSONDecodeError
                                  | Some cj \<Rightarrow>
                                      Inr (JObj [(''projects'', pj),
                                                 (''carbon_footprint'', cj)]))))))"
  by (simp add: create_project_run [OF assms] get_dashboard_run [OF assms] Let_def
        split: sum.splits)

text \<open>
  An instance: the projects backend answers 201 with the created resource.
\<close>

theorem data_backend_answer_is_returned_witness:
  "json_getitem (JObj [(''user_id'', JInt 42)]) ''user_id'' = Inr (JInt 42)
   \<and> fst (create_project (always (responds 10 201 (JObj [(''id'', JInt 1)]))) default_environ
            str_scalar [(''name'', JStr ''Park'')] (JObj [(''user_id'', JInt 42)]) w0)
       = Inr (JObj [(''id'', JInt 1)])"
proof -
  have h: "json_getitem (JObj [(''user_id'', JInt 42)]) ''user_id'' = Inr (JInt 42)"
    by (simp add: dict_getitem_def)
  show ?thesis
    using h data_backend_answer_is_returned [OF h,
        of "always (responds 10 201 (JObj [(''id'', JInt 1)]))" default_environ str_scalar
           "[(''name'', JStr ''Park'')]" w0]
    by (simp add: always_def responds_def)
qed

text \<open>
  The claim as stated fails when the projects backend answers 422 (as it does to a call
  without the query parameter \<open>x_user_id\<close>): the gateway returns the error body as its
  own result.
\<close>

theorem create_project_returns_error_body:
  "fst (create_project
          (always (responds 10 422 (JObj [(''detail'', JStr ''x_user_id: field required'')])))
          default_environ str_scalar [(''name'', JStr ''Park'')] (JObj [(''user_id'', JInt 42)])
          w0)
     = Inr (JObj [(''detail'', JStr ''x_user_id: field required'')])"
proof -
  have h: "json_getitem (JObj [(''user_id'', JInt 42)]) ''user_id'' = Inr (JInt 42)"
    by (simp add: dict_getitem_def)
  show ?thesis
    by (simp add: create_project_run [OF h] always_def responds_def)
qed

subsection \<open>Get-dashboard\<close>

text \<open>
  Claim C10. The two fetches of get-dashboard are issued one after the other, the
  projects call first and the carbon call second; when the projects call raises, the
  carbon call is not issued and the request fails with that exception.
\<close>

theorem get_dashboard_call_order:
  assumes "json_getitem user_data ''user_id'' = Inr u"
  shows "let preq = projects_by_user_request environ (str_of u);
             creq = footprint_request environ (str_of u);
             w1 = observe net preq w;
             run = get_dashboard net environ str_of user_data w
         in events (snd run)
              = events w @ (case out_result (net w preq) of
                              Inl e \<Rightarrow> [(preq, net w preq)]
                            | Inr r \<Rightarrow> [(preq, net w preq), (creq, net w1 creq)])
          \<and> (case out_result (net w preq) of Inl e \<Rightarrow> fst run = Inl e | Inr r \<Rightarrow> True)"
  by (simp add: get_dashboard_run [OF assms] Let_def observe_def split: sum.splits)

text \<open>
  An instance: the projects call runs into a timeout; it is the only call issued.
\<close>

theorem get_dashboard_call_order_witness:
  "json_getitem (JObj [(''user_id'', JInt 42)]) ''user_id'' = Inr (JInt 42)
   \<and> out_result (always (fails_after 5000) w0
        (projects_by_user_request default_environ (str_scalar (JInt 42)))) = Inl RequestError
   \<and> get_dashboard (always (fails_after 5000)) default_environ str_scalar
         (JObj [(''user_id'', JInt 42)]) w0
       = (Inl RequestError,
          \<lparr>events = [(projects_by_user_request default_environ ''42'', fails_after 5000)],
           clock = 5000\<rparr>)"
proof -
  have h: "json_getitem (JObj [(''user_id'', JInt 42)]) ''user_id'' = Inr (JInt 42)"
    by (simp add: dict_getitem_def)
  have "snd (get_dashboard (always (fails_after 5000)) default_environ str_scalar
         (JObj [(''user_id'', JInt 42)]) w0)
       = \<lparr>events = [(projects_by_user_request default_environ ''42'', fails_after 5000)],
          clock = 5000\<rparr>"
    by (simp add: get_dashboard_run [OF h] Let_def observe_def always_def fails_after_def
          w0_def digits_42)
  thus ?thesis
    using h get_dashboard_call_order [OF h,
        of default_environ str_scalar "always (fails_after 5000)" w0]
    by (simp add: Let_def always_def fails_after_def digits_42 prod_eq_iff)
qed

text \<open>
  Claim C4, as amended. When both calls return an answer whose body decodes, whatever
  the status codes, the result is the composite of the two bodies under \<open>projects\<close>
  and \<open>carbon_footprint\<close>. When a call raises, the request fails with that exception,
  and when a body does not decode, with the decoding error; no default value is put in
  the place of a failed call. A non-2xx status is not a failure: the code does not read
  the status, the body of such an answer goes into the composite.
\<close>

theorem get_dashboard_result:
  assumes "json_getitem user_data ''user_id'' = Inr u"
  shows "let preq = projects_by_user_request environ (str_of u);
             creq = footprint_request environ (str_of u);
             w1 = observe net preq w
         in fst (get_dashboard net environ str_of user_data w)
              = (case out_result (net w preq) of
                   Inl e \<Rightarrow> Inl e
                 | Inr pr \<Rightarrow>
                     (case out_result (net w1 creq) of
                        Inl e \<Rightarrow> Inl e
                      | Inr cr \<Rightarrow>
                          (case body pr of
                             None \<Rightarrow> Inl JSONDecodeError
                           | Some pj \<Rightarrow>
                               (case body cr of
                                  None \<Rightarrow> Inl JSONDecodeError
                                | Some cj \<Rightarrow>
                                    Inr (JObj [(''projects'', pj),
                                               (''carbon_footprint'', cj)])))))"
  by (simp add: get_dashboard_run [OF assms] Let_def split: sum.splits)

text \<open>
  An instance: both backends answer 200.
\<close>

theorem get_dashboard_result_witness:
  "json_getitem (JObj [(''user_id'', JInt 42)]) ''user_id'' = Inr (JInt 42)
   \<and> fst (get_dashboard dashboard_net default_environ str_scalar
            (JObj [(''user_id'', JInt 42)]) w0)
       = Inr (JObj [(''projects'', JArr [JObj [(''id'', JInt 1)]]),
                    (''carbon_footprint'', JObj [(''net_footprint'', JInt 5)])])"
proof -
  have h: "json_getitem (JObj [(''user_id'', JInt 42)]) ''user_id'' = Inr (JInt 42)"
    by (simp add: dict_getitem_def)
  show ?thesis
    using h get_dashboard_result [OF h, of default_environ str_scalar dashboard_net w0]
    by (simp add: Let_def dashboard_net_def by_url_def responds_def digits_42
          projects_by_user_request_def footprint_request_def)
qed

text \<open>
  The claim as stated fails when the carbon backend answers 404: the request succeeds,
  with the error body under \<open>carbon_footprint\<close>.
\<close>

theorem get_dashboard_non_2xx_is_success:
  "fst (get_dashboard dashboard_net_404 default_environ str_scalar
          (JObj [(''user_id'', JInt 42)]) w0)
     = Inr (JObj [(''projects'', JArr [JObj [(''id'', JInt 1)]]),
                  (''carbon_footprint'', JObj [(''detail'', JStr ''Not Found'')])])"
proof -
  have h: "json_getitem (JObj [(''user_id'', JInt 42)]) ''user_id'' = Inr (JInt 42)"
    by (simp add: dict_getitem_def)
  show ?thesis
    by (simp add: get_dashboard_run [OF h] Let_def dashboard_net_404_def by_url_def
          responds_def digits_42 projects_by_user_request_def
          footprint_request_def)
qed

end
